theory Spec2Isabelle
  imports Complex_Main
begin

section \<open>Values, exceptions and the library environment\<close>

text \<open>
  The server of \<^verbatim>\<open>src/server.py\<close> decodes each message with \<^verbatim>\<open>json.loads\<close>, works
  on the decoded Python value and encodes a dict with \<^verbatim>\<open>json.dumps\<close>. A decoded value
  is one of the Python values the decoder can build. A Python \<^verbatim>\<open>float\<close> is either a
  finite number (every finite double is a rational) or one of the three special values
  the decoder accepts.
\<close>

datatype pyfloat = Finite rat | PosInf | NegInf | NaN

datatype json =
    JNull
  | JBool bool
  | JInt int
  | JFloat pyfloat
  | JStr string
  | JArr "json list"
  | JObj "(string \<times> json) list"

text \<open>
  The exception classes that occur. \<open>KeyboardInterrupt\<close> and \<open>SystemExit\<close> derive from
  \<^verbatim>\<open>BaseException\<close> only; all others are subclasses of \<^verbatim>\<open>Exception\<close>.
\<close>

datatype pyerror =
    AttributeError
  | TypeError
  | ValueError
  | OverflowError
  | RecursionError
  | UnicodeDecodeError
  | ConnectionResetError
  | BrokenPipeError
  | OSError
  | KeyboardInterrupt
  | SystemExit

definition is_Exception :: "pyerror \<Rightarrow> bool" where
  "is_Exception e = (e \<noteq> KeyboardInterrupt \<and> e \<noteq> SystemExit)"

text \<open>
  What the server imports from the standard library is a parameter of the model:
  \<^item> \<open>json_loads\<close>: \<^verbatim>\<open>json.loads\<close>; \<open>None\<close> when it raises;
  \<^item> \<open>json_loads_error\<close>: what \<^verbatim>\<open>json.loads\<close> raises when it raises: \<open>None\<close> stands for
    \<^verbatim>\<open>json.JSONDecodeError\<close>, \<open>Some e\<close> for any other exception \<open>e\<close> (\<open>RecursionError\<close>
    on deeply nested text, \<open>ValueError\<close> on an integer literal with too many digits);
  \<^item> \<open>json_dumps\<close>: \<^verbatim>\<open>json.dumps\<close> on the dicts the handlers build;
  \<^item> \<open>sha256_hexdigest\<close>: \<^verbatim>\<open>hashlib.sha256(s.encode()).hexdigest()\<close> of a text; a
    text is a \<open>string\<close>, which \<^verbatim>\<open>encode\<close> always accepts (a Python \<^verbatim>\<open>str\<close> with an
    unpaired surrogate, on which \<^verbatim>\<open>encode\<close> raises, is not a value of the model);
  \<^item> \<open>format_value\<close>: the text an f-string inserts for a value that is not a \<^verbatim>\<open>str\<close>;
  \<^item> \<open>time_sleep\<close>: \<^verbatim>\<open>time.sleep\<close>; \<open>None\<close> when it returns, the exception otherwise;
  \<^item> \<open>float_fibonacci\<close>: what the comparisons, subtractions and additions of
    \<^verbatim>\<open>fibonacci\<close> yield when its argument is a \<^verbatim>\<open>float\<close> (floating-point arithmetic is
    not modelled).
  The reading of the clock, \<^verbatim>\<open>time.time()\<close>, is the argument \<open>now\<close> of each handler.
  Memory and running time are not modelled.
\<close>

record pylib =
  json_loads :: "string \<Rightarrow> json option"
  json_loads_error :: "string \<Rightarrow> pyerror option"
  json_dumps :: "json \<Rightarrow> string"
  sha256_hexdigest :: "string \<Rightarrow> string"
  format_value :: "json \<Rightarrow> string"
  time_sleep :: "json \<Rightarrow> pyerror option"
  float_fibonacci :: "pyfloat \<Rightarrow> pyerror + pyfloat"

text \<open>\<^verbatim>\<open>request.get(key, default)\<close> on a dict.\<close>

definition dict_get :: "(string \<times> json) list \<Rightarrow> string \<Rightarrow> json \<Rightarrow> json" where
  "dict_get d k dflt = (case map_of d k of None \<Rightarrow> dflt | Some v \<Rightarrow> v)"

text \<open>The text that \<^verbatim>\<open>f"{v}"\<close> inserts: a \<^verbatim>\<open>str\<close> is inserted as it is.\<close>

definition py_str :: "pylib \<Rightarrow> json \<Rightarrow> string" where
  "py_str L v = (case v of JStr s \<Rightarrow> s | _ \<Rightarrow> format_value L v)"

section \<open>Workload handlers\<close>

text \<open>\<^verbatim>\<open>handle_echo\<close>: never raises.\<close>

definition handle_echo :: "pylib \<Rightarrow> pyfloat \<Rightarrow> (string \<times> json) list \<Rightarrow> string" where
  "handle_echo L now request =
     json_dumps L (JObj
       [(''type'', JStr ''echo''),
        (''response'', JStr (''Echo: '' @ py_str L (dict_get request ''message'' (JStr '''')))),
        (''timestamp'', JFloat now)])"

text \<open>
  \<^verbatim>\<open>fibonacci\<close> on a Python \<^verbatim>\<open>int\<close>: the value it returns when the interpreter's stack
  is deep enough for the recursion.
\<close>

function fibonacci :: "int \<Rightarrow> int" where
  "fibonacci n = (if n \<le> 1 then n else fibonacci (n - 1) + fibonacci (n - 2))"
  by pat_completeness auto
termination
  by (relation "measure nat") auto

declare fibonacci.simps [simp del]

text \<open>
  The interpreter raises \<^verbatim>\<open>RecursionError\<close> when a call would make the stack deeper than
  its recursion limit: \<^verbatim>\<open>sys.getrecursionlimit()\<close> is 1000 and the server never changes
  it. When \<^verbatim>\<open>handle_compute\<close> calls \<^verbatim>\<open>fibonacci\<close> in a connection thread, six frames
  are on the stack: \<^verbatim>\<open>Thread._bootstrap\<close>, \<^verbatim>\<open>Thread._bootstrap_inner\<close>,
  \<^verbatim>\<open>Thread.run\<close>, \<^verbatim>\<open>handle_client\<close>, \<^verbatim>\<open>process_request\<close> and \<^verbatim>\<open>handle_compute\<close>.
\<close>

definition recursion_limit :: nat where
  "recursion_limit = 1000"

definition frames_in_use :: nat where
  "frames_in_use = 6"

text \<open>
  A call of \<^verbatim>\<open>fibonacci\<close> when \<open>room\<close> more frames fit on the stack: the call takes one
  frame, and an exception of the first recursive call leaves before the second is made.
\<close>

fun fibonacci_call :: "nat \<Rightarrow> int \<Rightarrow> pyerror + int" where
  "fibonacci_call 0 n = Inl RecursionError"
| "fibonacci_call (Suc room) n =
     (if n \<le> 1 then Inr n
      else
        (case fibonacci_call room (n - 1) of
           Inl e \<Rightarrow> Inl e
         | Inr a \<Rightarrow>
            (case fibonacci_call room (n - 2) of
               Inl e \<Rightarrow> Inl e
             | Inr b \<Rightarrow> Inr (a + b))))"

text \<open>
  \<^verbatim>\<open>self.fibonacci(n)\<close> as \<^verbatim>\<open>handle_compute\<close> calls it, on any decoded value: on an
  \<^verbatim>\<open>int\<close> the recursion runs in the room the stack has left; a \<^verbatim>\<open>bool\<close> compares as 0
  or 1 and is returned as it is; \<^verbatim>\<open>n <= 1\<close> raises \<^verbatim>\<open>TypeError\<close> on \<^verbatim>\<open>None\<close>, a
  \<^verbatim>\<open>str\<close>, a list and a dict.
\<close>

definition fibonacci_value :: "pylib \<Rightarrow> json \<Rightarrow> pyerror + json" where
  "fibonacci_value L n =
     (case n of
        JInt i \<Rightarrow>
          (case fibonacci_call (recursion_limit - frames_in_use) i of
             Inl e \<Rightarrow> Inl e
           | Inr result \<Rightarrow> Inr (JInt result))
      | JBool b \<Rightarrow> Inr (JBool b)
      | JFloat x \<Rightarrow> (case float_fibonacci L x of Inl e \<Rightarrow> Inl e | Inr y \<Rightarrow> Inr (JFloat y))
      | _ \<Rightarrow> Inl TypeError)"

definition handle_compute :: "pylib \<Rightarrow> pyfloat \<Rightarrow> (string \<times> json) list \<Rightarrow> pyerror + string" where
  "handle_compute L now request =
     (let n = dict_get request ''number'' (JInt 1000) in
      case fibonacci_value L n of
        Inl e \<Rightarrow> Inl e
      | Inr result \<Rightarrow>
          Inr (json_dumps L (JObj
            [(''type'', JStr ''compute''),
             (''input'', n),
             (''result'', result),
             (''timestamp'', JFloat now)])))"

text \<open>
  \<^verbatim>\<open>range(iterations)\<close>: the number of rounds of the loop. A negative count gives an
  empty range, a \<^verbatim>\<open>bool\<close> counts as 0 or 1, any other value raises \<^verbatim>\<open>TypeError\<close>.
\<close>

definition range_count :: "json \<Rightarrow> pyerror + nat" where
  "range_count iterations =
     (case iterations of
        JInt k \<Rightarrow> Inr (nat k)
      | JBool b \<Rightarrow> Inr (if b then 1 else 0)
      | _ \<Rightarrow> Inl TypeError)"

text \<open>
  The loop \<^verbatim>\<open>for i in range(iterations): result = hashlib.sha256(result.encode()).hexdigest()\<close>:
  only a \<^verbatim>\<open>str\<close> has \<^verbatim>\<open>encode\<close>.
\<close>

fun hash_loop :: "pylib \<Rightarrow> nat \<Rightarrow> json \<Rightarrow> pyerror + json" where
  "hash_loop L 0 result = Inr result"
| "hash_loop L (Suc i) result =
     (case result of
        JStr s \<Rightarrow> hash_loop L i (JStr (sha256_hexdigest L s))
      | _ \<Rightarrow> Inl AttributeError)"

text \<open>
  \<^verbatim>\<open>result[:32]\<close>: a \<^verbatim>\<open>str\<close> and a list can be sliced, any other value raises
  (\<^verbatim>\<open>TypeError\<close>; for a dict, \<^verbatim>\<open>KeyError\<close> from Python 3.12 on).
\<close>

definition slice32 :: "json \<Rightarrow> pyerror + json" where
  "slice32 result =
     (case result of
        JStr s \<Rightarrow> Inr (JStr (take 32 s))
      | JArr xs \<Rightarrow> Inr (JArr (take 32 xs))
      | _ \<Rightarrow> Inl TypeError)"

definition handle_hash :: "pylib \<Rightarrow> pyfloat \<Rightarrow> (string \<times> json) list \<Rightarrow> pyerror + string" where
  "handle_hash L now request =
     (let data = dict_get request ''data'' (JStr ''default'');
          iterations = dict_get request ''iterations'' (JInt 10000)
      in case range_count iterations of
           Inl e \<Rightarrow> Inl e
         | Inr count \<Rightarrow>
            (case hash_loop L count data of
               Inl e \<Rightarrow> Inl e
             | Inr result \<Rightarrow>
                (case slice32 result of
                   Inl e \<Rightarrow> Inl e
                 | Inr prefix \<Rightarrow>
                     Inr (json_dumps L (JObj
                       [(''type'', JStr ''hash''),
                        (''result'', prefix),
                        (''iterations'', iterations),
                        (''timestamp'', JFloat now)])))))"

text \<open>\<^verbatim>\<open>handle_slow_operation\<close>: the time the sleep takes is not modelled.\<close>

definition handle_slow_operation ::
  "pylib \<Rightarrow> pyfloat \<Rightarrow> (string \<times> json) list \<Rightarrow> pyerror + string" where
  "handle_slow_operation L now request =
     (let delay = dict_get request ''delay'' (JFloat (Finite (1 / 10))) in
      case time_sleep L delay of
        Some e \<Rightarrow> Inl e
      | None \<Rightarrow>
          Inr (json_dumps L (JObj
            [(''type'', JStr ''slow''),
             (''message'', JStr (''Completed slow operation with '' @ py_str L delay @ ''s delay'')),
             (''timestamp'', JFloat now)])))"

section \<open>The dispatcher\<close>

text \<open>
  \<^verbatim>\<open>process_request\<close>: only \<^verbatim>\<open>json.JSONDecodeError\<close> is caught; any other exception
  of \<^verbatim>\<open>json.loads\<close> leaves the function. \<^verbatim>\<open>request.get\<close> exists on a dict only; on any
  other decoded value it raises \<^verbatim>\<open>AttributeError\<close>, which, like the exceptions of the
  handlers, leaves the function too.
\<close>

definition process_request :: "pylib \<Rightarrow> pyfloat \<Rightarrow> string \<Rightarrow> pyerror + string" where
  "process_request L now data =
     (case json_loads L data of
        None \<Rightarrow>
          (case json_loads_error L data of
             None \<Rightarrow>
               Inr (json_dumps L (JObj
                 [(''type'', JStr ''echo''),
                  (''response'', JStr (''Echo: '' @ data)),
                  (''timestamp'', JFloat now)]))
           | Some e \<Rightarrow> Inl e)
      | Some (JObj request) \<Rightarrow>
          (let request_type = dict_get request ''type'' (JStr ''echo'') in
           if request_type = JStr ''echo'' then Inr (handle_echo L now request)
           else if request_type = JStr ''compute'' then handle_compute L now request
           else if request_type = JStr ''hash'' then handle_hash L now request
           else if request_type = JStr ''slow'' then handle_slow_operation L now request
           else Inr (json_dumps L (JObj [(''error'', JStr ''Unknown request type'')])))
      | Some _ \<Rightarrow> Inl AttributeError)"

section \<open>The connection handler\<close>

text \<open>
  One round of the loop of \<^verbatim>\<open>handle_client\<close> meets the outside world three times: the
  read \<^verbatim>\<open>client_socket.recv(1024).decode('utf-8')\<close>, the clock inside
  \<^verbatim>\<open>process_request\<close> and the write \<^verbatim>\<open>client_socket.send(...)\<close>. An \<open>io_event\<close> says
  what each of them does in that round. A read returns a text (the empty text when the peer
  has closed) or raises; a write succeeds or raises. The script of a connection is the list
  of its rounds; when the script is used up the handler is still waiting in \<^verbatim>\<open>recv\<close>.
\<close>

datatype recv_outcome = Received string | RecvRaises pyerror

datatype send_outcome = Sent | SendRaises pyerror

record io_event =
  recv :: recv_outcome
  clock :: pyfloat
  send :: send_outcome

text \<open>The lines the handler prints, in order.\<close>

datatype log_entry =
    LogReceived string string
  | LogDisconnected string
  | LogError string pyerror

text \<open>
  The state the handler changes: the registry \<^verbatim>\<open>self.clients\<close> (sockets by identity),
  the texts handed to \<^verbatim>\<open>send\<close> on this connection, the number of calls of \<^verbatim>\<open>close\<close>
  on its socket, and the printed lines.
\<close>

record server_state =
  clients :: "nat list"
  sent :: "string list"
  close_calls :: nat
  printed :: "log_entry list"

text \<open>
  The body of the \<^verbatim>\<open>try\<close>: the \<^verbatim>\<open>while True\<close> loop. It ends by \<^verbatim>\<open>break\<close> (no
  exception) or by an exception; \<open>None\<close> when the script ends first.
\<close>

fun client_loop ::
  "pylib \<Rightarrow> string \<Rightarrow> io_event list \<Rightarrow> server_state \<Rightarrow> (pyerror option \<times> server_state) option" where
  "client_loop L client_address [] s = None"
| "client_loop L client_address (ev # evs) s =
     (case recv ev of
        RecvRaises e \<Rightarrow> Some (Some e, s)
      | Received data \<Rightarrow>
          if data = [] then Some (None, s)
          else
            (let s1 = s\<lparr>printed := printed s @ [LogReceived client_address data]\<rparr> in
             case process_request L (clock ev) data of
               Inl e \<Rightarrow> Some (Some e, s1)
             | Inr response \<Rightarrow>
                 (case send ev of
                    SendRaises e \<Rightarrow> Some (Some e, s1)
                  | Sent \<Rightarrow> client_loop L client_address evs (s1\<lparr>sent := sent s1 @ [response]\<rparr>))))"

text \<open>The two \<^verbatim>\<open>except\<close> clauses: what is printed, and whether the exception is caught.\<close>

definition except_clauses ::
  "string \<Rightarrow> pyerror option \<Rightarrow> server_state \<Rightarrow> pyerror option \<times> server_state" where
  "except_clauses client_address raised s =
     (case raised of
        None \<Rightarrow> (None, s)
      | Some e \<Rightarrow>
          if e = ConnectionResetError
          then (None, s\<lparr>printed := printed s @ [LogDisconnected client_address]\<rparr>)
          else if is_Exception e
          then (None, s\<lparr>printed := printed s @ [LogError client_address e]\<rparr>)
          else (Some e, s))"

text \<open>The \<^verbatim>\<open>finally\<close> clause.\<close>

definition finally_clause :: "nat \<Rightarrow> server_state \<Rightarrow> server_state" where
  "finally_clause client_socket s =
     (let s1 = s\<lparr>close_calls := close_calls s + 1\<rparr> in
      if client_socket \<in> set (clients s1)
      then s1\<lparr>clients := remove1 client_socket (clients s1)\<rparr>
      else s1)"

text \<open>
  \<^verbatim>\<open>handle_client\<close>: the result is the exception that leaves the handler, if any, and
  the state it leaves behind; \<open>None\<close> when the handler has not returned at the end of the
  script.
\<close>

definition handle_client ::
  "pylib \<Rightarrow> nat \<Rightarrow> string \<Rightarrow> io_event list \<Rightarrow> server_state \<Rightarrow> (pyerror option \<times> server_state) option" where
  "handle_client L client_socket client_address script s =
     (case client_loop L client_address script s of
        None \<Rightarrow> None
      | Some (raised, s1) \<Rightarrow>
          (let (escaped, s2) = except_clauses client_address raised s1
           in Some (escaped, finally_clause client_socket s2)))"

section \<open>One round of the loop\<close>

text \<open>
  What a round of the loop of \<^verbatim>\<open>handle_client\<close> does: it writes a response and goes on
  to the next read (\<open>answered\<close>), or it leaves the loop without writing (\<open>ends_loop\<close>): on
  an empty read, a read that raises, a message on which \<^verbatim>\<open>process_request\<close> raises, or a
  write that raises.
\<close>

definition answered :: "pylib \<Rightarrow> io_event \<Rightarrow> string \<Rightarrow> bool" where
  "answered L ev response =
     (case recv ev of
        RecvRaises e \<Rightarrow> False
      | Received data \<Rightarrow>
          data \<noteq> [] \<and> process_request L (clock ev) data = Inr response \<and> send ev = Sent)"

definition ends_loop :: "pylib \<Rightarrow> io_event \<Rightarrow> bool" where
  "ends_loop L ev =
     (case recv ev of
        RecvRaises e \<Rightarrow> True
      | Received data \<Rightarrow>
          data = [] \<or>
          (case process_request L (clock ev) data of
             Inl e \<Rightarrow> True
           | Inr response \<Rightarrow> (case send ev of Sent \<Rightarrow> False | SendRaises e \<Rightarrow> True)))"

section \<open>Requests within the data model\<close>






section \<open>The Fibonacci numbers of the specification\<close>

text \<open>
  The canonical definition the specification names: \<open>fib(0) = 0\<close>, \<open>fib(1) = 1\<close>,
  \<open>fib(n) = fib(n-1) + fib(n-2)\<close>. It is compared with \<^const>\<open>fibonacci\<close> below.
\<close>

fun fib_canonical :: "nat \<Rightarrow> nat" where
  "fib_canonical 0 = 0"
| "fib_canonical (Suc 0) = 1"
| "fib_canonical (Suc (Suc n)) = fib_canonical (Suc n) + fib_canonical n"

section \<open>An environment for the examples\<close>

text \<open>
  Every theorem below holds for every library environment \<open>L\<close>, hence for the standard
  library. The examples need one concrete environment. Its decoder knows the messages of
  the examples, decodes each as \<^verbatim>\<open>json.loads\<close> does, and rejects every other text, with
  \<open>RecursionError\<close> on the text of 1000 opening brackets, as \<^verbatim>\<open>json.loads\<close> does; its
  encoder writes integers, texts without escapes, lists and dicts as \<^verbatim>\<open>json.dumps\<close>
  does and abridges a finite float to its integer part; its digest only marks that a
  digest was taken. No theorem depends on these choices.
\<close>

definition sample_loads :: "string \<Rightarrow> json option" where
  \<open>sample_loads data =
     (if data = ''[]'' then Some (JArr [])
      else if data = ''{"type": "bogus"}'' then Some (JObj [(''type'', JStr ''bogus'')])
      else if data = ''{"message": "hi"}'' then Some (JObj [(''message'', JStr ''hi'')])
      else if data = ''{"type": "echo", "message": "hi"}''
        then Some (JObj [(''type'', JStr ''echo''), (''message'', JStr ''hi'')])
      else if data = ''{"type": "compute"}'' then Some (JObj [(''type'', JStr ''compute'')])
      else if data = ''{"type": "compute", "number": 10}''
        then Some (JObj [(''type'', JStr ''compute''), (''number'', JInt 10)])
      else if data = ''{"type": "compute", "number": "ten"}''
        then Some (JObj [(''type'', JStr ''compute''), (''number'', JStr ''ten'')])
      else None)\<close>

definition sample_loads_error :: "string \<Rightarrow> pyerror option" where
  "sample_loads_error data =
     (if data = replicate 1000 (CHR ''['') then Some RecursionError else None)"

function show_nat :: "nat \<Rightarrow> string" where
  "show_nat n =
     (if n < 10 then [char_of (48 + n)] else show_nat (n div 10) @ [char_of (48 + n mod 10)])"
  by pat_completeness auto
termination
  by (relation "measure id") auto

definition show_int :: "int \<Rightarrow> string" where
  "show_int i = (if i < 0 then ''-'' @ show_nat (nat (- i)) else show_nat (nat i))"

fun join_with :: "string \<Rightarrow> string list \<Rightarrow> string" where
  "join_with sep [] = []"
| "join_with sep [x] = x"
| "join_with sep (x # y # ys) = x @ sep @ join_with sep (y # ys)"

fun sample_dumps :: "json \<Rightarrow> string" where
  "sample_dumps JNull = ''null''"
| "sample_dumps (JBool b) = (if b then ''true'' else ''false'')"
| "sample_dumps (JInt i) = show_int i"
| "sample_dumps (JFloat x) =
     (case x of
        Finite r \<Rightarrow> show_int \<lfloor>r\<rfloor> @ ''.0''
      | PosInf \<Rightarrow> ''Infinity''
      | NegInf \<Rightarrow> ''-Infinity''
      | NaN \<Rightarrow> ''NaN'')"
| "sample_dumps (JStr s) = [CHR 0x22] @ s @ [CHR 0x22]"
| "sample_dumps (JArr xs) = ''['' @ join_with '', '' (map sample_dumps xs) @ '']''"
| "sample_dumps (JObj kvs) =
     ''{'' @ join_with '', ''
              (map (\<lambda>(k, v). [CHR 0x22] @ k @ [CHR 0x22] @ '': '' @ sample_dumps v) kvs) @ ''}''"

definition sample_sleep :: "json \<Rightarrow> pyerror option" where
  "sample_sleep delay =
     (case delay of
        JInt i \<Rightarrow> if i < 0 then Some ValueError else None
      | JBool b \<Rightarrow> None
      | JFloat (Finite r) \<Rightarrow> if r < 0 then Some ValueError else None
      | JFloat NaN \<Rightarrow> Some ValueError
      | JFloat _ \<Rightarrow> Some OverflowError
      | _ \<Rightarrow> Some TypeError)"

function rat_fibonacci :: "rat \<Rightarrow> rat" where
  "rat_fibonacci x = (if x \<le> 1 then x else rat_fibonacci (x - 1) + rat_fibonacci (x - 2))"
  by pat_completeness auto
termination
  by (relation "measure (\<lambda>x. nat \<lceil>x\<rceil>)") (auto simp: ceiling_diff_one)

definition sample_float_fibonacci :: "pyfloat \<Rightarrow> pyerror + pyfloat" where
  "sample_float_fibonacci x =
     (case x of
        Finite r \<Rightarrow> Inr (Finite (rat_fibonacci r))
      | NegInf \<Rightarrow> Inr NegInf
      | _ \<Rightarrow> Inl RecursionError)"

definition sample_lib :: pylib where
  "sample_lib =
     \<lparr>json_loads = sample_loads,
      json_loads_error = sample_loads_error,
      json_dumps = sample_dumps,
      sha256_hexdigest = (\<lambda>s. ''sha256('' @ s @ '')''),
      format_value = sample_dumps,
      time_sleep = sample_sleep,
      float_fibonacci = sample_float_fibonacci\<rparr>"

section \<open>Shared lemmas\<close>

lemma fibonacci_at_most_one: "n \<le> 1 \<Longrightarrow> fibonacci n = n"
  by (simp add: fibonacci.simps)

lemma fibonacci_step: "1 < n \<Longrightarrow> fibonacci n = fibonacci (n - 1) + fibonacci (n - 2)"
  by (subst fibonacci.simps) simp

lemma fibonacci_canonical: "fibonacci (int n) = int (fib_canonical n)"
proof (induction n rule: fib_canonical.induct)
  case 1
  show ?case by (simp add: fibonacci_at_most_one)
next
  case 2
  show ?case by (simp add: fibonacci_at_most_one)
next
  case (3 n)
  have "fibonacci (int (Suc (Suc n))) = fibonacci (int (Suc n)) + fibonacci (int n)"
    using fibonacci_step [of "int (Suc (Suc n))"] by (simp add: algebra_simps)
  with 3 show ?case by simp
qed

lemma fibonacci_call_result:
  "fibonacci_call room n =
     (if max 1 n \<le> int room then Inr (fibonacci n) else Inl RecursionError)"
proof (induction room arbitrary: n)
  case 0
  show ?case by simp
next
  case (Suc room)
  show ?case
  proof (cases "n \<le> 1")
    case True
    then show ?thesis by (simp add: fibonacci_at_most_one)
  next
    case False
    then have step: "fibonacci n = fibonacci (n - 1) + fibonacci (n - 2)"
      by (simp add: fibonacci_step)
    show ?thesis
    proof (cases "n \<le> int (Suc room)")
      case True
      with False have "max 1 (n - 1) \<le> int room" and "max 1 (n - 2) \<le> int room"
        by simp_all
      with False True step show ?thesis
        by (simp add: Suc.IH)
    next
      case False
      with \<open>\<not> n \<le> 1\<close> have "\<not> max 1 (n - 1) \<le> int room"
        by simp
      with False \<open>\<not> n \<le> 1\<close> show ?thesis
        by (simp add: Suc.IH)
    qed
  qed
qed

lemma handle_compute_int:
  "dict_get request ''number'' (JInt 1000) = JInt n \<Longrightarrow>
   n \<le> int (recursion_limit - frames_in_use) \<Longrightarrow>
   handle_compute L now request =
     Inr (json_dumps L (JObj
       [(''type'', JStr ''compute''), (''input'', JInt n), (''result'', JInt (fibonacci n)),
        (''timestamp'', JFloat now)]))"
  by (simp add: handle_compute_def fibonacci_value_def fibonacci_call_result
      recursion_limit_def frames_in_use_def)


lemma sample_loads_short: "length data < 1000 \<Longrightarrow> sample_loads_error data = None"
  by (auto simp: sample_loads_error_def)

lemma sample_loads_long:
  assumes "length data = 1000"
  shows "sample_loads data = None"
proof -
  have ne: "data \<noteq> t" if "length t < 1000" for t
    using that assms by (metis less_irrefl)
  show ?thesis
    unfolding sample_loads_def by (simp add: ne)
qed

lemma dict_get_present: "map_of d k = Some v \<Longrightarrow> dict_get d k dflt = v"
  by (simp add: dict_get_def)

lemma dict_get_absent: "map_of d k = None \<Longrightarrow> dict_get d k dflt = dflt"
  by (simp add: dict_get_def)

section \<open>The compute handler\<close>

text \<open>
  C2. A compute request whose \<open>number\<close> is an integer \<open>n\<close> with \<open>0 \<le> n \<le> 20\<close> is
  answered with kind \<open>compute\<close>, \<open>input = n\<close> and \<open>result\<close> the canonical Fibonacci
  number of \<open>n\<close>; a request without a \<open>number\<close> field is handled as one with
  \<open>number = 1000\<close>. The code's \<^const>\<open>fibonacci\<close> gives 0, 1, 55 and 6765 at 0, 1, 10
  and 20.
\<close>

theorem compute_returns_canonical_fibonacci:
  "(map_of request ''number'' = Some (JInt n) \<and> 0 \<le> n \<and> n \<le> 20 \<longrightarrow>
      handle_compute L now request =
        Inr (json_dumps L (JObj
          [(''type'', JStr ''compute''), (''input'', JInt n),
           (''result'', JInt (int (fib_canonical (nat n)))), (''timestamp'', JFloat now)])))
   \<and> (map_of request ''number'' = None \<longrightarrow>
      dict_get request ''number'' (JInt 1000) = JInt 1000
      \<and> handle_compute L now request = handle_compute L now ((''number'', JInt 1000) # request))
   \<and> fibonacci 0 = 0 \<and> fibonacci 1 = 1 \<and> fibonacci 10 = 55 \<and> fibonacci 20 = 6765"
proof (intro conjI impI)
  assume a: "map_of request ''number'' = Some (JInt n) \<and> 0 \<le> n \<and> n \<le> 20"
  then have "fibonacci n = int (fib_canonical (nat n))"
    using fibonacci_canonical [of "nat n"] by simp
  with a show "handle_compute L now request =
        Inr (json_dumps L (JObj
          [(''type'', JStr ''compute''), (''input'', JInt n),
           (''result'', JInt (int (fib_canonical (nat n)))), (''timestamp'', JFloat now)]))"
    by (simp add: handle_compute_int dict_get_present recursion_limit_def frames_in_use_def)
next
  assume a: "map_of request ''number'' = None"
  then show "dict_get request ''number'' (JInt 1000) = JInt 1000"
    by (rule dict_get_absent)
  from a show "handle_compute L now request =
      handle_compute L now ((''number'', JInt 1000) # request)"
    by (simp add: handle_compute_def dict_get_def)
next
  show "fibonacci 0 = 0" by (simp add: fibonacci_at_most_one)
  show "fibonacci 1 = 1" by (simp add: fibonacci_at_most_one)
  show "fibonacci 10 = 55" using fibonacci_canonical [of 10] by code_simp
  show "fibonacci 20 = 6765" using fibonacci_canonical [of 20] by code_simp
qed

theorem compute_returns_canonical_fibonacci_witness:
  "map_of [(''type'', JStr ''compute''), (''number'', JInt 10)] ''number'' = Some (JInt 10)
   \<and> (0::int) \<le> 10 \<and> (10::int) \<le> 20
   \<and> handle_compute sample_lib (Finite 0) [(''type'', JStr ''compute''), (''number'', JInt 10)] =
       Inr (json_dumps sample_lib (JObj
          [(''type'', JStr ''compute''), (''input'', JInt 10),
           (''result'', JInt 55), (''timestamp'', JFloat (Finite 0))]))
   \<and> map_of [(''type'', JStr ''compute'')] ''number'' = None
   \<and> dict_get [(''type'', JStr ''compute'')] ''number'' (JInt 1000) = JInt 1000
   \<and> handle_compute sample_lib (Finite 0) [(''type'', JStr ''compute'')] =
       handle_compute sample_lib (Finite 0) [(''number'', JInt 1000), (''type'', JStr ''compute'')]"
proof -
  have f: "fib_canonical 10 = 55" by code_simp
  show ?thesis
    using compute_returns_canonical_fibonacci
        [of "[(''type'', JStr ''compute''), (''number'', JInt 10)]" 10 sample_lib "Finite 0"]
      compute_returns_canonical_fibonacci
        [of "[(''type'', JStr ''compute'')]" 10 sample_lib "Finite 0"]
    by (simp add: f)
qed

text \<open>
  C10. A compute request whose \<open>number\<close> is a negative integer \<open>n\<close> is answered
  normally, with \<open>result = n\<close>: \<^const>\<open>fibonacci\<close> returns an argument \<open>\<le> 1\<close> unchanged.
\<close>

theorem compute_negative_number_returned:
  "map_of request ''number'' = Some (JInt n) \<Longrightarrow> n < 0 \<Longrightarrow>
     fibonacci n = n \<and>
     handle_compute L now request =
       Inr (json_dumps L (JObj
         [(''type'', JStr ''compute''), (''input'', JInt n), (''result'', JInt n),
          (''timestamp'', JFloat now)]))"
  by (simp add: handle_compute_int dict_get_present fibonacci_at_most_one
      recursion_limit_def frames_in_use_def)

theorem compute_negative_number_returned_witness:
  "map_of [(''type'', JStr ''compute''), (''number'', JInt (- 7))] ''number'' = Some (JInt (- 7))
   \<and> (- 7 :: int) < 0
   \<and> fibonacci (- 7) = - 7
   \<and> handle_compute sample_lib (Finite 0) [(''type'', JStr ''compute''), (''number'', JInt (- 7))] =
       Inr (json_dumps sample_lib (JObj
         [(''type'', JStr ''compute''), (''input'', JInt (- 7)), (''result'', JInt (- 7)),
          (''timestamp'', JFloat (Finite 0))]))"
  using compute_negative_number_returned
      [of "[(''type'', JStr ''compute''), (''number'', JInt (- 7))]" "- 7" sample_lib "Finite 0"]
  by simp

section \<open>The hash handler\<close>

lemma hash_loop_text:
  "hash_loop L n (JStr s) = Inr (JStr ((sha256_hexdigest L ^^ n) s))"
  by (induction n arbitrary: s) (simp_all add: funpow_swap1)

lemma handle_hash_text:
  "dict_get request ''data'' (JStr ''default'') = JStr d \<Longrightarrow>
   dict_get request ''iterations'' (JInt 10000) = JInt k \<Longrightarrow>
   handle_hash L now request =
     Inr (json_dumps L (JObj
       [(''type'', JStr ''hash''),
        (''result'', JStr (take 32 ((sha256_hexdigest L ^^ nat k) d))),
        (''iterations'', JInt k),
        (''timestamp'', JFloat now)]))"
  by (simp add: handle_hash_def range_count_def hash_loop_text slice32_def)

text \<open>
  C3. A hash request with a text \<open>data\<close> (default \<open>default\<close>) and an integer
  \<open>iterations \<ge> 0\<close> (default 10000) is answered with \<open>result\<close> the first 32 characters
  of the text obtained from \<open>data\<close> by taking the SHA-256 hex digest \<open>iterations\<close> times;
  for \<open>iterations = 0\<close> that is \<open>data\<close> itself, cut to 32 characters.
\<close>

theorem hash_result_is_iterated_digest:
  "dict_get request ''data'' (JStr ''default'') = JStr d \<Longrightarrow>
   dict_get request ''iterations'' (JInt 10000) = JInt k \<Longrightarrow>
   0 \<le> k \<Longrightarrow>
     handle_hash L now request =
       Inr (json_dumps L (JObj
         [(''type'', JStr ''hash''),
          (''result'', JStr (take 32 ((sha256_hexdigest L ^^ nat k) d))),
          (''iterations'', JInt k),
          (''timestamp'', JFloat now)]))
     \<and> (k = 0 \<longrightarrow>
         handle_hash L now request =
           Inr (json_dumps L (JObj
             [(''type'', JStr ''hash''),
              (''result'', JStr (take 32 d)),
              (''iterations'', JInt 0),
              (''timestamp'', JFloat now)])))"
  by (simp add: handle_hash_text)

theorem hash_result_is_iterated_digest_witness:
  "dict_get [(''type'', JStr ''hash''), (''data'', JStr ''abc''), (''iterations'', JInt 2)]
      ''data'' (JStr ''default'') = JStr ''abc''
   \<and> dict_get [(''type'', JStr ''hash''), (''data'', JStr ''abc''), (''iterations'', JInt 2)]
      ''iterations'' (JInt 10000) = JInt 2
   \<and> handle_hash sample_lib (Finite 0)
        [(''type'', JStr ''hash''), (''data'', JStr ''abc''), (''iterations'', JInt 2)] =
       Inr (json_dumps sample_lib (JObj
         [(''type'', JStr ''hash''),
          (''result'', JStr (take 32
             (sha256_hexdigest sample_lib (sha256_hexdigest sample_lib ''abc'')))),
          (''iterations'', JInt 2),
          (''timestamp'', JFloat (Finite 0))]))
   \<and> dict_get [(''type'', JStr ''hash''), (''iterations'', JInt 0)]
      ''data'' (JStr ''default'') = JStr ''default''
   \<and> dict_get [(''type'', JStr ''hash''), (''iterations'', JInt 0)]
      ''iterations'' (JInt 10000) = JInt 0
   \<and> handle_hash sample_lib (Finite 0) [(''type'', JStr ''hash''), (''iterations'', JInt 0)] =
       Inr (json_dumps sample_lib (JObj
         [(''type'', JStr ''hash''),
          (''result'', JStr ''default''),
          (''iterations'', JInt 0),
          (''timestamp'', JFloat (Finite 0))]))"
proof -
  show ?thesis
    using hash_result_is_iterated_digest
        [of "[(''type'', JStr ''hash''), (''data'', JStr ''abc''), (''iterations'', JInt 2)]"
            "''abc''" 2 sample_lib "Finite 0"]
      hash_result_is_iterated_digest
        [of "[(''type'', JStr ''hash''), (''iterations'', JInt 0)]"
            "''default''" 0 sample_lib "Finite 0"]
    by (simp add: dict_get_def eval_nat_numeral)
qed

text \<open>
  C9. Two hash requests with the same text \<open>data\<close> and the same integer \<open>iterations\<close>
  get the same \<open>result\<close>, whatever their other fields and the clock: the two responses
  differ in the timestamp only.
\<close>

theorem hash_result_deterministic:
  "dict_get request1 ''data'' (JStr ''default'') = JStr d \<Longrightarrow>
   dict_get request2 ''data'' (JStr ''default'') = JStr d \<Longrightarrow>
   dict_get request1 ''iterations'' (JInt 10000) = JInt k \<Longrightarrow>
   dict_get request2 ''iterations'' (JInt 10000) = JInt k \<Longrightarrow>
   \<exists>result.
     handle_hash L now1 request1 =
       Inr (json_dumps L (JObj
         [(''type'', JStr ''hash''), (''result'', result), (''iterations'', JInt k),
          (''timestamp'', JFloat now1)]))
     \<and> handle_hash L now2 request2 =
       Inr (json_dumps L (JObj
         [(''type'', JStr ''hash''), (''result'', result), (''iterations'', JInt k),
          (''timestamp'', JFloat now2)]))"
  by (rule exI [of _ "JStr (take 32 ((sha256_hexdigest L ^^ nat k) d))"])
     (simp add: handle_hash_text)

theorem hash_result_deterministic_witness:
  "dict_get [(''type'', JStr ''hash''), (''data'', JStr ''abc''), (''iterations'', JInt 3)]
      ''data'' (JStr ''default'') = JStr ''abc''
   \<and> dict_get [(''iterations'', JInt 3), (''data'', JStr ''abc''), (''type'', JStr ''hash'')]
      ''data'' (JStr ''default'') = JStr ''abc''
   \<and> dict_get [(''type'', JStr ''hash''), (''data'', JStr ''abc''), (''iterations'', JInt 3)]
      ''iterations'' (JInt 10000) = JInt 3
   \<and> dict_get [(''iterations'', JInt 3), (''data'', JStr ''abc''), (''type'', JStr ''hash'')]
      ''iterations'' (JInt 10000) = JInt 3
   \<and> (\<exists>result.
     handle_hash sample_lib (Finite 1)
         [(''type'', JStr ''hash''), (''data'', JStr ''abc''), (''iterations'', JInt 3)] =
       Inr (json_dumps sample_lib (JObj
         [(''type'', JStr ''hash''), (''result'', result), (''iterations'', JInt 3),
          (''timestamp'', JFloat (Finite 1))]))
     \<and> handle_hash sample_lib (Finite 2)
         [(''iterations'', JInt 3), (''data'', JStr ''abc''), (''type'', JStr ''hash'')] =
       Inr (json_dumps sample_lib (JObj
         [(''type'', JStr ''hash''), (''result'', result), (''iterations'', JInt 3),
          (''timestamp'', JFloat (Finite 2))])))"
proof -
  have a: "dict_get [(''type'', JStr ''hash''), (''data'', JStr ''abc''), (''iterations'', JInt 3)]
      ''data'' (JStr ''default'') = JStr ''abc''" by (simp add: dict_get_def)
  have b: "dict_get [(''iterations'', JInt 3), (''data'', JStr ''abc''), (''type'', JStr ''hash'')]
      ''data'' (JStr ''default'') = JStr ''abc''" by (simp add: dict_get_def)
  have c: "dict_get [(''type'', JStr ''hash''), (''data'', JStr ''abc''), (''iterations'', JInt 3)]
      ''iterations'' (JInt 10000) = JInt 3" by (simp add: dict_get_def)
  have e: "dict_get [(''iterations'', JInt 3), (''data'', JStr ''abc''), (''type'', JStr ''hash'')]
      ''iterations'' (JInt 10000) = JInt 3" by (simp add: dict_get_def)
  from hash_result_deterministic [OF a b c e, of sample_lib "Finite 1" "Finite 2"] a b c e
  show ?thesis by blast
qed

section \<open>The dispatcher: decode failures, unknown kinds, echo\<close>

lemma client_loop_continues:
  "recv ev = Received data \<Longrightarrow> data \<noteq> [] \<Longrightarrow>
   process_request L (clock ev) data = Inr response \<Longrightarrow> send ev = Sent \<Longrightarrow>
   client_loop L client_address (ev # evs) s =
     client_loop L client_address evs
       (s\<lparr>printed := printed s @ [LogReceived client_address data],
          sent := sent s @ [response]\<rparr>)"
  by simp

lemma process_request_not_json:
  "json_loads L data = None \<Longrightarrow> json_loads_error L data = None \<Longrightarrow>
   process_request L now data =
     Inr (json_dumps L (JObj
       [(''type'', JStr ''echo''), (''response'', JStr (''Echo: '' @ data)),
        (''timestamp'', JFloat now)]))"
  by (simp add: process_request_def)

lemma process_request_loads_raises:
  "json_loads L data = None \<Longrightarrow> json_loads_error L data = Some e \<Longrightarrow>
   process_request L now data = Inl e"
  by (simp add: process_request_def)

lemma handle_client_request_raises:
  "recv ev = Received data \<Longrightarrow> data \<noteq> [] \<Longrightarrow>
   process_request L (clock ev) data = Inl e \<Longrightarrow>
   is_Exception e \<Longrightarrow> e \<noteq> ConnectionResetError \<Longrightarrow>
   handle_client L client_socket client_address (ev # evs) s =
     Some (None, finally_clause client_socket
       (s\<lparr>printed := printed s @ [LogReceived client_address data, LogError client_address e]\<rparr>))"
  by (simp add: handle_client_def except_clauses_def)

lemma handle_client_read_raises:
  "recv ev = RecvRaises e \<Longrightarrow> is_Exception e \<Longrightarrow> e \<noteq> ConnectionResetError \<Longrightarrow>
   handle_client L client_socket client_address (ev # evs) s =
     Some (None, finally_clause client_socket
       (s\<lparr>printed := printed s @ [LogError client_address e]\<rparr>))"
  by (simp add: handle_client_def except_clauses_def)

lemma process_request_dict:
  "json_loads L data = Some (JObj request) \<Longrightarrow>
   process_request L now data =
     (let request_type = dict_get request ''type'' (JStr ''echo'') in
      if request_type = JStr ''echo'' then Inr (handle_echo L now request)
      else if request_type = JStr ''compute'' then handle_compute L now request
      else if request_type = JStr ''hash'' then handle_hash L now request
      else if request_type = JStr ''slow'' then handle_slow_operation L now request
      else Inr (json_dumps L (JObj [(''error'', JStr ''Unknown request type'')])))"
  by (simp add: process_request_def)

lemma process_request_unknown_kind:
  "json_loads L data = Some (JObj request) \<Longrightarrow> map_of request ''type'' = Some kind \<Longrightarrow>
   kind \<noteq> JStr ''echo'' \<Longrightarrow> kind \<noteq> JStr ''compute'' \<Longrightarrow>
   kind \<noteq> JStr ''hash'' \<Longrightarrow> kind \<noteq> JStr ''slow'' \<Longrightarrow>
   process_request L now data =
     Inr (json_dumps L (JObj [(''error'', JStr ''Unknown request type'')]))"
  by (simp add: process_request_dict dict_get_def)

text \<open>
  C4, as the code has it. When \<^verbatim>\<open>json.loads\<close> raises \<^verbatim>\<open>json.JSONDecodeError\<close> on the
  payload text, the payload is answered with an echo response (kind \<open>echo\<close>) whose text is
  \<open>Echo: \<close> followed by the raw payload, with the current reading of the clock as
  timestamp; it is not an error response, and when the write succeeds the loop of the
  connection handler goes on with the next read. When \<^verbatim>\<open>json.loads\<close> raises another
  exception, that exception leaves \<^const>\<open>process_request\<close>; when the bytes read are not
  UTF-8, the read raises \<open>UnicodeDecodeError\<close> and \<^const>\<open>process_request\<close> is not called.
  In both cases the connection handler prints the exception, writes nothing and closes the
  connection.
\<close>

theorem malformed_payload_is_echoed:
  "(json_loads L data = None \<and> json_loads_error L data = None \<longrightarrow>
      process_request L now data =
        Inr (json_dumps L (JObj
          [(''type'', JStr ''echo''), (''response'', JStr (''Echo: '' @ data)),
           (''timestamp'', JFloat now)]))
      \<and> (data \<noteq> [] \<and> recv ev = Received data \<and> clock ev = now \<and> send ev = Sent \<longrightarrow>
           client_loop L client_address (ev # evs) s =
             client_loop L client_address evs
               (s\<lparr>printed := printed s @ [LogReceived client_address data],
                  sent := sent s @ [json_dumps L (JObj
                      [(''type'', JStr ''echo''), (''response'', JStr (''Echo: '' @ data)),
                       (''timestamp'', JFloat now)])]\<rparr>)))
   \<and> (json_loads L data = None \<and> json_loads_error L data = Some e \<longrightarrow>
      process_request L now data = Inl e
      \<and> (data \<noteq> [] \<and> recv ev = Received data \<and> clock ev = now
           \<and> is_Exception e \<and> e \<noteq> ConnectionResetError \<longrightarrow>
           handle_client L client_socket client_address (ev # evs) s =
             Some (None, finally_clause client_socket
               (s\<lparr>printed := printed s @
                  [LogReceived client_address data, LogError client_address e]\<rparr>))))
   \<and> (recv ev = RecvRaises UnicodeDecodeError \<longrightarrow>
      handle_client L client_socket client_address (ev # evs) s =
        Some (None, finally_clause client_socket
          (s\<lparr>printed := printed s @ [LogError client_address UnicodeDecodeError]\<rparr>)))"
proof (intro conjI impI)
  assume a: "json_loads L data = None \<and> json_loads_error L data = None"
  then show p: "process_request L now data =
        Inr (json_dumps L (JObj
          [(''type'', JStr ''echo''), (''response'', JStr (''Echo: '' @ data)),
           (''timestamp'', JFloat now)]))"
    by (simp add: process_request_not_json)
  assume b: "data \<noteq> [] \<and> recv ev = Received data \<and> clock ev = now \<and> send ev = Sent"
  then have r: "recv ev = Received data" and d: "data \<noteq> []" and c: "clock ev = now"
    and w: "send ev = Sent" by simp_all
  from p c have "process_request L (clock ev) data =
        Inr (json_dumps L (JObj
          [(''type'', JStr ''echo''), (''response'', JStr (''Echo: '' @ data)),
           (''timestamp'', JFloat now)]))"
    by simp
  from client_loop_continues [OF r d this w]
  show "client_loop L client_address (ev # evs) s =
             client_loop L client_address evs
               (s\<lparr>printed := printed s @ [LogReceived client_address data],
                  sent := sent s @ [json_dumps L (JObj
                      [(''type'', JStr ''echo''), (''response'', JStr (''Echo: '' @ data)),
                       (''timestamp'', JFloat now)])]\<rparr>)" .
next
  assume a: "json_loads L data = None \<and> json_loads_error L data = Some e"
  then show p: "process_request L now data = Inl e"
    by (simp add: process_request_loads_raises)
  assume b: "data \<noteq> [] \<and> recv ev = Received data \<and> clock ev = now
           \<and> is_Exception e \<and> e \<noteq> ConnectionResetError"
  then have r: "recv ev = Received data" and d: "data \<noteq> []" and c: "clock ev = now"
    and x: "is_Exception e" and y: "e \<noteq> ConnectionResetError" by simp_all
  from p c have "process_request L (clock ev) data = Inl e" by simp
  from handle_client_request_raises [OF r d this x y]
  show "handle_client L client_socket client_address (ev # evs) s =
             Some (None, finally_clause client_socket
               (s\<lparr>printed := printed s @
                  [LogReceived client_address data, LogError client_address e]\<rparr>))" .
next
  assume "recv ev = RecvRaises UnicodeDecodeError"
  then show "handle_client L client_socket client_address (ev # evs) s =
        Some (None, finally_clause client_socket
          (s\<lparr>printed := printed s @ [LogError client_address UnicodeDecodeError]\<rparr>))"
    by (rule handle_client_read_raises) (simp_all add: is_Exception_def)
qed

text \<open>
  C4, as stated, fails: the text of 1000 opening brackets is not valid JSON and fits one
  read, \<^verbatim>\<open>json.loads\<close> raises \<open>RecursionError\<close> on it, and \<^const>\<open>process_request\<close>
  raises instead of returning an echo; the handler closes the connection and writes
  nothing. Bytes that are not UTF-8 close the connection the same way.
\<close>

theorem malformed_payload_closes_connection_counterexample:
  "json_loads sample_lib (replicate 1000 (CHR ''['')) = None
   \<and> json_loads_error sample_lib (replicate 1000 (CHR ''['')) = Some RecursionError
   \<and> process_request sample_lib (Finite 5) (replicate 1000 (CHR ''['')) = Inl RecursionError
   \<and> handle_client sample_lib 3 ''peer''
        [\<lparr>recv = Received (replicate 1000 (CHR ''['')), clock = Finite 5, send = Sent\<rparr>]
        \<lparr>clients = [3], sent = [], close_calls = 0, printed = []\<rparr> =
       Some (None,
        \<lparr>clients = [], sent = [], close_calls = 1,
         printed = [LogReceived ''peer'' (replicate 1000 (CHR ''['')),
                    LogError ''peer'' RecursionError]\<rparr>)
   \<and> handle_client sample_lib 3 ''peer''
        [\<lparr>recv = RecvRaises UnicodeDecodeError, clock = Finite 5, send = Sent\<rparr>]
        \<lparr>clients = [3], sent = [], close_calls = 0, printed = []\<rparr> =
       Some (None,
        \<lparr>clients = [], sent = [], close_calls = 1,
         printed = [LogError ''peer'' UnicodeDecodeError]\<rparr>)"
proof -
  have a: "json_loads sample_lib (replicate 1000 (CHR ''['')) = None"
    by (simp add: sample_lib_def sample_loads_long)
  have b: "json_loads_error sample_lib (replicate 1000 (CHR ''['')) = Some RecursionError"
    by (simp add: sample_lib_def sample_loads_error_def)
  have p: "process_request sample_lib (Finite 5) (replicate 1000 (CHR ''['')) = Inl RecursionError"
    by (rule process_request_loads_raises [OF a b])
  have n: "replicate 1000 (CHR ''['') \<noteq> []"
    by (simp add: replicate_empty)
  have 1: "handle_client sample_lib 3 ''peer''
        [\<lparr>recv = Received (replicate 1000 (CHR ''['')), clock = Finite 5, send = Sent\<rparr>]
        \<lparr>clients = [3], sent = [], close_calls = 0, printed = []\<rparr> =
       Some (None,
        \<lparr>clients = [], sent = [], close_calls = 1,
         printed = [LogReceived ''peer'' (replicate 1000 (CHR ''['')),
                    LogError ''peer'' RecursionError]\<rparr>)"
    using handle_client_request_raises
      [where ev = "\<lparr>recv = Received (replicate 1000 (CHR ''['')), clock = Finite 5, send = Sent\<rparr>"
         and data = "replicate 1000 (CHR ''['')" and L = sample_lib and e = RecursionError
         and client_socket = 3 and client_address = "''peer''" and evs = "[]"
         and s = "\<lparr>clients = [3], sent = [], close_calls = 0, printed = []\<rparr>"]
      p n
    by (simp add: is_Exception_def finally_clause_def)
  have 2: "handle_client sample_lib 3 ''peer''
        [\<lparr>recv = RecvRaises UnicodeDecodeError, clock = Finite 5, send = Sent\<rparr>]
        \<lparr>clients = [3], sent = [], close_calls = 0, printed = []\<rparr> =
       Some (None,
        \<lparr>clients = [], sent = [], close_calls = 1,
         printed = [LogError ''peer'' UnicodeDecodeError]\<rparr>)"
    by (simp add: handle_client_def except_clauses_def finally_clause_def is_Exception_def)
  from a b p 1 2 show ?thesis by blast
qed

theorem malformed_payload_is_echoed_witness:
  "json_loads sample_lib ''hello'' = None
   \<and> json_loads_error sample_lib ''hello'' = None
   \<and> process_request sample_lib (Finite 5) ''hello'' =
       Inr (json_dumps sample_lib (JObj
         [(''type'', JStr ''echo''), (''response'', JStr ''Echo: hello''),
          (''timestamp'', JFloat (Finite 5))]))
   \<and> client_loop sample_lib ''peer''
        [\<lparr>recv = Received ''hello'', clock = Finite 5, send = Sent\<rparr>,
         \<lparr>recv = Received '''', clock = Finite 6, send = Sent\<rparr>]
        \<lparr>clients = [3], sent = [], close_calls = 0, printed = []\<rparr> =
       Some (None,
        \<lparr>clients = [3],
         sent = [json_dumps sample_lib (JObj
           [(''type'', JStr ''echo''), (''response'', JStr ''Echo: hello''),
            (''timestamp'', JFloat (Finite 5))])],
         close_calls = 0,
         printed = [LogReceived ''peer'' ''hello'']\<rparr>)
   \<and> json_loads sample_lib (replicate 1000 (CHR ''['')) = None
   \<and> json_loads_error sample_lib (replicate 1000 (CHR ''['')) = Some RecursionError
   \<and> process_request sample_lib (Finite 5) (replicate 1000 (CHR ''['')) = Inl RecursionError
   \<and> handle_client sample_lib 3 ''peer''
        [\<lparr>recv = Received (replicate 1000 (CHR ''['')), clock = Finite 5, send = Sent\<rparr>]
        \<lparr>clients = [3], sent = [], close_calls = 0, printed = []\<rparr> =
       Some (None, finally_clause 3
        \<lparr>clients = [3], sent = [], close_calls = 0,
         printed = [LogReceived ''peer'' (replicate 1000 (CHR ''['')),
                    LogError ''peer'' RecursionError]\<rparr>)
   \<and> handle_client sample_lib 3 ''peer''
        [\<lparr>recv = RecvRaises UnicodeDecodeError, clock = Finite 5, send = Sent\<rparr>]
        \<lparr>clients = [3], sent = [], close_calls = 0, printed = []\<rparr> =
       Some (None, finally_clause 3
        \<lparr>clients = [3], sent = [], close_calls = 0,
         printed = [LogError ''peer'' UnicodeDecodeError]\<rparr>)"
proof -
  have a: "json_loads sample_lib ''hello'' = None"
    by (simp add: sample_lib_def sample_loads_def)
  have b: "json_loads_error sample_lib ''hello'' = None"
    by (simp add: sample_lib_def sample_loads_short)
  have c: "json_loads sample_lib (replicate 1000 (CHR ''['')) = None"
    by (simp add: sample_lib_def sample_loads_long)
  have d: "json_loads_error sample_lib (replicate 1000 (CHR ''['')) = Some RecursionError"
    by (simp add: sample_lib_def sample_loads_error_def)
  have n: "replicate 1000 (CHR ''['') \<noteq> []"
    by (simp add: replicate_empty)
  note t = malformed_payload_is_echoed
  from t [where L = sample_lib and data = "''hello''" and now = "Finite 5"
      and ev = "\<lparr>recv = Received ''hello'', clock = Finite 5, send = Sent\<rparr>"
      and client_address = "''peer''"
      and evs = "[\<lparr>recv = Received '''', clock = Finite 6, send = Sent\<rparr>]"
      and s = "\<lparr>clients = [3], sent = [], close_calls = 0, printed = []\<rparr>"] a b
  have 1: "process_request sample_lib (Finite 5) ''hello'' =
       Inr (json_dumps sample_lib (JObj
         [(''type'', JStr ''echo''), (''response'', JStr ''Echo: hello''),
          (''timestamp'', JFloat (Finite 5))]))
    \<and> client_loop sample_lib ''peer''
        [\<lparr>recv = Received ''hello'', clock = Finite 5, send = Sent\<rparr>,
         \<lparr>recv = Received '''', clock = Finite 6, send = Sent\<rparr>]
        \<lparr>clients = [3], sent = [], close_calls = 0, printed = []\<rparr> =
       Some (None,
        \<lparr>clients = [3],
         sent = [json_dumps sample_lib (JObj
           [(''type'', JStr ''echo''), (''response'', JStr ''Echo: hello''),
            (''timestamp'', JFloat (Finite 5))])],
         close_calls = 0,
         printed = [LogReceived ''peer'' ''hello'']\<rparr>)"
    by simp
  from t [where L = sample_lib and data = "replicate 1000 (CHR ''['')" and now = "Finite 5"
      and e = RecursionError
      and ev = "\<lparr>recv = Received (replicate 1000 (CHR ''['')), clock = Finite 5, send = Sent\<rparr>"
      and client_socket = 3 and client_address = "''peer''" and evs = "[]"
      and s = "\<lparr>clients = [3], sent = [], close_calls = 0, printed = []\<rparr>"] c d n
  have 2: "process_request sample_lib (Finite 5) (replicate 1000 (CHR ''['')) = Inl RecursionError
    \<and> handle_client sample_lib 3 ''peer''
        [\<lparr>recv = Received (replicate 1000 (CHR ''['')), clock = Finite 5, send = Sent\<rparr>]
        \<lparr>clients = [3], sent = [], close_calls = 0, printed = []\<rparr> =
       Some (None, finally_clause 3
        \<lparr>clients = [3], sent = [], close_calls = 0,
         printed = [LogReceived ''peer'' (replicate 1000 (CHR ''['')),
                    LogError ''peer'' RecursionError]\<rparr>)"
    by (simp add: is_Exception_def)
  from t [where L = sample_lib
      and ev = "\<lparr>recv = RecvRaises UnicodeDecodeError, clock = Finite 5, send = Sent\<rparr>"
      and client_socket = 3 and client_address = "''peer''" and evs = "[]"
      and s = "\<lparr>clients = [3], sent = [], close_calls = 0, printed = []\<rparr>"]
  have 3: "handle_client sample_lib 3 ''peer''
        [\<lparr>recv = RecvRaises UnicodeDecodeError, clock = Finite 5, send = Sent\<rparr>]
        \<lparr>clients = [3], sent = [], close_calls = 0, printed = []\<rparr> =
       Some (None, finally_clause 3
        \<lparr>clients = [3], sent = [], close_calls = 0,
         printed = [LogError ''peer'' UnicodeDecodeError]\<rparr>)"
    by simp
  from a b c d 1 2 3 show ?thesis by blast
qed

text \<open>
  C5. A decoded request whose \<open>type\<close> field is present and is none of \<open>echo\<close>,
  \<open>compute\<close>, \<open>hash\<close>, \<open>slow\<close> is answered with exactly the dict
  \<open>{error: Unknown request type}\<close>, which has no timestamp; the connection stays open:
  when the write succeeds, the loop of the connection handler goes on with the next read.
\<close>

theorem unknown_kind_error_response:
  "json_loads L data = Some (JObj request) \<Longrightarrow> map_of request ''type'' = Some kind \<Longrightarrow>
   kind \<noteq> JStr ''echo'' \<Longrightarrow> kind \<noteq> JStr ''compute'' \<Longrightarrow>
   kind \<noteq> JStr ''hash'' \<Longrightarrow> kind \<noteq> JStr ''slow'' \<Longrightarrow>
     process_request L now data =
       Inr (json_dumps L (JObj [(''error'', JStr ''Unknown request type'')]))
     \<and> (data \<noteq> [] \<and> recv ev = Received data \<and> send ev = Sent \<longrightarrow>
          client_loop L client_address (ev # evs) s =
            client_loop L client_address evs
              (s\<lparr>printed := printed s @ [LogReceived client_address data],
                 sent := sent s @
                     [json_dumps L (JObj [(''error'', JStr ''Unknown request type'')])]\<rparr>))"
proof (intro conjI impI)
  assume a: "json_loads L data = Some (JObj request)" "map_of request ''type'' = Some kind"
    "kind \<noteq> JStr ''echo''" "kind \<noteq> JStr ''compute''" "kind \<noteq> JStr ''hash''"
    "kind \<noteq> JStr ''slow''"
  show "process_request L now data =
       Inr (json_dumps L (JObj [(''error'', JStr ''Unknown request type'')]))"
    by (rule process_request_unknown_kind [OF a])
next
  assume a: "json_loads L data = Some (JObj request)" "map_of request ''type'' = Some kind"
    "kind \<noteq> JStr ''echo''" "kind \<noteq> JStr ''compute''" "kind \<noteq> JStr ''hash''"
    "kind \<noteq> JStr ''slow''"
    and b: "data \<noteq> [] \<and> recv ev = Received data \<and> send ev = Sent"
  from b have r: "recv ev = Received data" and d: "data \<noteq> []" and w: "send ev = Sent"
    by simp_all
  show "client_loop L client_address (ev # evs) s =
            client_loop L client_address evs
              (s\<lparr>printed := printed s @ [LogReceived client_address data],
                 sent := sent s @
                     [json_dumps L (JObj [(''error'', JStr ''Unknown request type'')])]\<rparr>)"
    by (rule client_loop_continues [OF r d process_request_unknown_kind [OF a] w])
qed

theorem unknown_kind_error_response_witness:
  \<open>json_loads sample_lib ''{"type": "bogus"}'' = Some (JObj [(''type'', JStr ''bogus'')])
   \<and> map_of [(''type'', JStr ''bogus'')] ''type'' = Some (JStr ''bogus'')
   \<and> process_request sample_lib (Finite 5) ''{"type": "bogus"}'' =
       Inr (json_dumps sample_lib (JObj [(''error'', JStr ''Unknown request type'')]))
   \<and> client_loop sample_lib ''peer''
        [\<lparr>recv = Received ''{"type": "bogus"}'', clock = Finite 5, send = Sent\<rparr>,
         \<lparr>recv = Received '''', clock = Finite 6, send = Sent\<rparr>]
        \<lparr>clients = [3], sent = [], close_calls = 0, printed = []\<rparr> =
       Some (None,
        \<lparr>clients = [3],
         sent = [json_dumps sample_lib (JObj [(''error'', JStr ''Unknown request type'')])],
         close_calls = 0,
         printed = [LogReceived ''peer'' ''{"type": "bogus"}'']\<rparr>)\<close>
proof -
  have a: \<open>json_loads sample_lib ''{"type": "bogus"}'' = Some (JObj [(''type'', JStr ''bogus'')])\<close>
    by (simp add: sample_lib_def sample_loads_def)
  have b: "map_of [(''type'', JStr ''bogus'')] ''type'' = Some (JStr ''bogus'')"
    by simp
  from unknown_kind_error_response [OF a b, where now = "Finite 5"
      and ev = \<open>\<lparr>recv = Received ''{"type": "bogus"}'', clock = Finite 5, send = Sent\<rparr>\<close>
      and client_address = "''peer''"
      and evs = "[\<lparr>recv = Received '''', clock = Finite 6, send = Sent\<rparr>]"
      and s = "\<lparr>clients = [3], sent = [], close_calls = 0, printed = []\<rparr>"] a b
  show ?thesis by simp
qed

lemma handle_echo_text:
  "dict_get request ''message'' (JStr '''') = JStr m \<Longrightarrow>
   handle_echo L now request =
     json_dumps L (JObj
       [(''type'', JStr ''echo''), (''response'', JStr (''Echo: '' @ m)),
        (''timestamp'', JFloat now)])"
  by (simp add: handle_echo_def py_str_def)

text \<open>
  C6. The echo handler answers with the text \<open>Echo: \<close> followed by the message, and with
  \<open>Echo: \<close> alone when the message is omitted; a decoded request without a \<open>type\<close>
  field, like one of type \<open>echo\<close>, is routed to the echo handler.
\<close>

theorem echo_response_and_default_kind:
  "(map_of request ''message'' = Some (JStr m) \<longrightarrow>
      handle_echo L now request =
        json_dumps L (JObj
          [(''type'', JStr ''echo''), (''response'', JStr (''Echo: '' @ m)),
           (''timestamp'', JFloat now)]))
   \<and> (map_of request ''message'' = None \<longrightarrow>
      handle_echo L now request =
        json_dumps L (JObj
          [(''type'', JStr ''echo''), (''response'', JStr ''Echo: ''),
           (''timestamp'', JFloat now)]))
   \<and> (json_loads L data = Some (JObj request) \<and> map_of request ''type'' = None \<longrightarrow>
      process_request L now data = Inr (handle_echo L now request))
   \<and> (json_loads L data = Some (JObj request) \<and> map_of request ''type'' = Some (JStr ''echo'') \<longrightarrow>
      process_request L now data = Inr (handle_echo L now request))"
  by (simp add: handle_echo_text process_request_dict dict_get_def)

theorem echo_response_and_default_kind_witness:
  \<open>map_of [(''type'', JStr ''echo''), (''message'', JStr ''hi'')] ''message'' = Some (JStr ''hi'')
   \<and> handle_echo sample_lib (Finite 5) [(''type'', JStr ''echo''), (''message'', JStr ''hi'')] =
        json_dumps sample_lib (JObj
          [(''type'', JStr ''echo''), (''response'', JStr ''Echo: hi''),
           (''timestamp'', JFloat (Finite 5))])
   \<and> json_loads sample_lib ''{"type": "echo", "message": "hi"}'' =
        Some (JObj [(''type'', JStr ''echo''), (''message'', JStr ''hi'')])
   \<and> map_of [(''type'', JStr ''echo''), (''message'', JStr ''hi'')] ''type'' = Some (JStr ''echo'')
   \<and> process_request sample_lib (Finite 5) ''{"type": "echo", "message": "hi"}'' =
        Inr (handle_echo sample_lib (Finite 5) [(''type'', JStr ''echo''), (''message'', JStr ''hi'')])
   \<and> map_of [(''type'', JStr ''echo'')] ''message'' = None
   \<and> handle_echo sample_lib (Finite 5) [(''type'', JStr ''echo'')] =
        json_dumps sample_lib (JObj
          [(''type'', JStr ''echo''), (''response'', JStr ''Echo: ''),
           (''timestamp'', JFloat (Finite 5))])
   \<and> json_loads sample_lib ''{"message": "hi"}'' = Some (JObj [(''message'', JStr ''hi'')])
   \<and> map_of [(''message'', JStr ''hi'')] ''type'' = None
   \<and> process_request sample_lib (Finite 5) ''{"message": "hi"}'' =
        Inr (handle_echo sample_lib (Finite 5) [(''message'', JStr ''hi'')])\<close>
proof -
  have a: \<open>json_loads sample_lib ''{"type": "echo", "message": "hi"}'' =
        Some (JObj [(''type'', JStr ''echo''), (''message'', JStr ''hi'')])\<close>
    by (simp add: sample_lib_def sample_loads_def)
  have b: \<open>json_loads sample_lib ''{"message": "hi"}'' = Some (JObj [(''message'', JStr ''hi'')])\<close>
    by (simp add: sample_lib_def sample_loads_def)
  from echo_response_and_default_kind
        [of "[(''type'', JStr ''echo''), (''message'', JStr ''hi'')]" "''hi''" sample_lib "Finite 5"
            \<open>''{"type": "echo", "message": "hi"}''\<close>]
      echo_response_and_default_kind
        [of "[(''type'', JStr ''echo'')]" "''hi''" sample_lib "Finite 5" "''hello''"]
      echo_response_and_default_kind
        [of "[(''message'', JStr ''hi'')]" "''hi''" sample_lib "Finite 5"
            \<open>''{"message": "hi"}''\<close>]
      a b
  show ?thesis by simp
qed

section \<open>What leaves the dispatcher\<close>











section \<open>The connection handler: release and order\<close>

lemma client_loop_keeps_registry:
  "client_loop L client_address script s = Some (raised, s1) \<Longrightarrow>
   clients s1 = clients s \<and> close_calls s1 = close_calls s"
proof (induction script arbitrary: s)
  case Nil
  then show ?case by simp
next
  case (Cons ev evs)
  show ?case
  proof (cases "recv ev")
    case (RecvRaises e)
    with Cons.prems show ?thesis by simp
  next
    case (Received data)
    show ?thesis
    proof (cases "data = []")
      case True
      with Received Cons.prems show ?thesis by simp
    next
      case False
      show ?thesis
      proof (cases "process_request L (clock ev) data")
        case (Inl e)
        with Received False Cons.prems show ?thesis by auto
      next
        case (Inr response)
        show ?thesis
        proof (cases "send ev")
          case (SendRaises e)
          with Received False Inr Cons.prems show ?thesis by auto
        next
          case Sent
          with Received False Inr Cons.prems
          have "client_loop L client_address evs
                  (s\<lparr>printed := printed s @ [LogReceived client_address data],
                     sent := sent s @ [response]\<rparr>) = Some (raised, s1)"
            by simp
          from Cons.IH [OF this] show ?thesis by simp
        qed
      qed
    qed
  qed
qed

lemma except_clauses_keeps_registry:
  "except_clauses client_address raised s = (escaped, s1) \<Longrightarrow>
   clients s1 = clients s \<and> close_calls s1 = close_calls s \<and> sent s1 = sent s"
  by (auto simp: except_clauses_def split: option.splits if_splits)

lemma finally_clause_effect:
  "close_calls (finally_clause client_socket s) = close_calls s + 1
   \<and> clients (finally_clause client_socket s) = remove1 client_socket (clients s)
   \<and> sent (finally_clause client_socket s) = sent s
   \<and> printed (finally_clause client_socket s) = printed s"
  by (simp add: finally_clause_def Let_def remove1_idem)


lemma handle_client_releases:
  assumes "handle_client L client_socket client_address script s = Some (escaped, s')"
  shows "close_calls s' = close_calls s + 1 \<and> clients s' = remove1 client_socket (clients s)"
proof -
  from assms obtain raised s1 where
    loop: "client_loop L client_address script s = Some (raised, s1)"
    by (auto simp: handle_client_def split: option.splits)
  obtain esc s2 where ex: "except_clauses client_address raised s1 = (esc, s2)"
    by (cases "except_clauses client_address raised s1")
  from assms loop ex have s': "s' = finally_clause client_socket s2"
    by (simp add: handle_client_def)
  from client_loop_keeps_registry [OF loop] except_clauses_keeps_registry [OF ex]
  show ?thesis by (simp add: s' finally_clause_effect)
qed






lemma round_answers_or_ends:
  "ends_loop L ev \<or> (\<exists>response. answered L ev response)"
  by (cases "recv ev"; cases "send ev")
     (auto simp: ends_loop_def answered_def split: sum.splits)

lemma client_loop_answered:
  "answered L ev response \<Longrightarrow>
   \<exists>s1. client_loop L client_address (ev # evs) s = client_loop L client_address evs s1
     \<and> sent s1 = sent s @ [response]"
proof -
  assume a: "answered L ev response"
  then obtain data where d: "recv ev = Received data" "data \<noteq> []"
    "process_request L (clock ev) data = Inr response" "send ev = Sent"
    by (cases "recv ev") (auto simp: answered_def)
  show ?thesis
    by (rule exI [of _ "s\<lparr>printed := printed s @ [LogReceived client_address data],
                          sent := sent s @ [response]\<rparr>"])
       (use d in simp)
qed

lemma client_loop_ends:
  "ends_loop L ev \<Longrightarrow>
   \<exists>raised s1. client_loop L client_address (ev # evs) s = Some (raised, s1)
     \<and> sent s1 = sent s"
  by (cases "recv ev"; cases "send ev")
     (auto simp: ends_loop_def Let_def split: sum.splits)

lemma client_loop_answers_all:
  "list_all2 (answered L) messages answers \<Longrightarrow>
   \<exists>s1. client_loop L client_address (messages @ rest) s = client_loop L client_address rest s1
     \<and> sent s1 = sent s @ answers"
proof (induction messages answers arbitrary: s rule: list_all2_induct)
  case Nil
  show ?case by (rule exI [of _ s]) simp
next
  case (Cons ev messages response answers)
  from client_loop_answered [OF Cons.hyps(1), of client_address "messages @ rest" s]
  obtain s0 where
    s0: "client_loop L client_address (ev # messages @ rest) s =
         client_loop L client_address (messages @ rest) s0"
        "sent s0 = sent s @ [response]"
    by auto
  from Cons.IH [of s0] obtain s1 where
    s1: "client_loop L client_address (messages @ rest) s0 = client_loop L client_address rest s1"
        "sent s1 = sent s0 @ answers"
    by auto
  from s0 s1 show ?case by auto
qed

lemma client_loop_decomposes:
  "client_loop L client_address script s = Some (raised, s1) \<Longrightarrow>
   \<exists>messages answers stopper rest.
     script = messages @ stopper # rest \<and> list_all2 (answered L) messages answers
     \<and> ends_loop L stopper \<and> sent s1 = sent s @ answers"
proof (induction script arbitrary: s)
  case Nil
  then show ?case by simp
next
  case (Cons ev evs)
  from round_answers_or_ends [of L ev] show ?case
  proof
    assume e: "ends_loop L ev"
    from client_loop_ends [OF e, of client_address evs s] Cons.prems
    have "sent s1 = sent s" by auto
    with e have "ev # evs = [] @ ev # evs \<and> list_all2 (answered L) [] []
        \<and> ends_loop L ev \<and> sent s1 = sent s @ []"
      by simp
    then show ?thesis by blast
  next
    assume "\<exists>response. answered L ev response"
    then obtain response where a: "answered L ev response" ..
    from client_loop_answered [OF a, of client_address evs s] obtain s0 where
      s0: "client_loop L client_address (ev # evs) s = client_loop L client_address evs s0"
          "sent s0 = sent s @ [response]"
      by auto
    with Cons.prems have "client_loop L client_address evs s0 = Some (raised, s1)"
      by simp
    from Cons.IH [OF this] obtain messages answers stopper rest where
      d: "evs = messages @ stopper # rest" "list_all2 (answered L) messages answers"
         "ends_loop L stopper" "sent s1 = sent s0 @ answers"
      by blast
    from a d s0 have "ev # evs = (ev # messages) @ stopper # rest
        \<and> list_all2 (answered L) (ev # messages) (response # answers)
        \<and> ends_loop L stopper \<and> sent s1 = sent s @ (response # answers)"
      by simp
    then show ?thesis by blast
  qed
qed

lemma handle_client_keeps_sent:
  assumes "handle_client L client_socket client_address script s = Some (escaped, s')"
  shows "\<exists>raised s1. client_loop L client_address script s = Some (raised, s1) \<and> sent s' = sent s1"
proof -
  from assms obtain raised s1 where
    loop: "client_loop L client_address script s = Some (raised, s1)"
    by (auto simp: handle_client_def split: option.splits)
  obtain esc s2 where ex: "except_clauses client_address raised s1 = (esc, s2)"
    by (cases "except_clauses client_address raised s1")
  from assms loop ex have "s' = finally_clause client_socket s2"
    by (simp add: handle_client_def)
  with except_clauses_keeps_registry [OF ex] loop show ?thesis
    by (simp add: finally_clause_effect)
qed

lemma handle_client_answers_then_ends:
  assumes "list_all2 (answered L) messages answers" and "ends_loop L stopper"
  shows "\<exists>escaped s'.
     handle_client L client_socket client_address (messages @ stopper # rest) s = Some (escaped, s')
     \<and> sent s' = sent s @ answers \<and> close_calls s' = close_calls s + 1"
proof -
  from client_loop_answers_all [OF assms(1), of client_address "stopper # rest" s]
  obtain s0 where
    s0: "client_loop L client_address (messages @ stopper # rest) s =
         client_loop L client_address (stopper # rest) s0"
        "sent s0 = sent s @ answers"
    by auto
  from client_loop_ends [OF assms(2), of client_address rest s0] obtain raised s1 where
    s1: "client_loop L client_address (stopper # rest) s0 = Some (raised, s1)" "sent s1 = sent s0"
    by auto
  obtain esc s2 where ex: "except_clauses client_address raised s1 = (esc, s2)"
    by (cases "except_clauses client_address raised s1")
  from s0 s1 ex have run:
    "handle_client L client_socket client_address (messages @ stopper # rest) s =
       Some (esc, finally_clause client_socket s2)"
    by (simp add: handle_client_def)
  from handle_client_releases [OF run] have "close_calls (finally_clause client_socket s2) =
      close_calls s + 1"
    by simp
  moreover from except_clauses_keeps_registry [OF ex] s0 s1
  have "sent (finally_clause client_socket s2) = sent s @ answers"
    by (simp add: finally_clause_effect)
  ultimately show ?thesis using run by blast
qed

lemma ends_loop_cases:
  "ends_loop L ev \<longleftrightarrow>
     (recv ev = Received [] \<or> (\<exists>e. recv ev = RecvRaises e)
      \<or> (\<exists>data e. recv ev = Received data \<and> process_request L (clock ev) data = Inl e)
      \<or> (\<exists>e. send ev = SendRaises e))"
  by (cases "recv ev"; cases "send ev")
     (auto simp: ends_loop_def split: sum.splits)

lemma answered_each:
  assumes "list_all2 (answered L) messages answers"
  shows "length answers = length messages
    \<and> (\<forall>n<length messages. \<exists>data. recv (messages ! n) = Received data \<and> data \<noteq> []
          \<and> process_request L (clock (messages ! n)) data = Inr (answers ! n)
          \<and> send (messages ! n) = Sent)"
proof (intro conjI allI impI)
  from assms show "length answers = length messages"
    by (simp add: list_all2_lengthD)
next
  fix n assume "n < length messages"
  with assms have "answered L (messages ! n) (answers ! n)"
    by (simp add: list_all2_nthD)
  then show "\<exists>data. recv (messages ! n) = Received data \<and> data \<noteq> []
          \<and> process_request L (clock (messages ! n)) data = Inr (answers ! n)
          \<and> send (messages ! n) = Sent"
    by (cases "recv (messages ! n)") (auto simp: answered_def)
qed

text \<open>
  C8, as the code has it. The responses written on a connection are exactly the
  dispatcher's outputs, in order, for the messages read before the first round that ends
  the loop: the \<open>n\<close>-th response written is the output for the \<open>n\<close>-th message. The loop
  ends on an empty read, a read that raises, a message on which the dispatcher raises, or
  a write that raises; that round and all later messages get no response, and the handler
  closes the connection. So there is exactly one response per message when the dispatcher
  returns for every message and every write succeeds.
\<close>

theorem responses_follow_requests_in_order:
  "(list_all2 (answered L) messages answers \<and> ends_loop L stopper \<longrightarrow>
      (\<exists>escaped s'.
         handle_client L client_socket client_address (messages @ stopper # rest) s =
           Some (escaped, s')
         \<and> sent s' = sent s @ answers \<and> close_calls s' = close_calls s + 1))
   \<and> (handle_client L client_socket client_address script s = Some (escaped, s') \<longrightarrow>
      (\<exists>messages answers stopper rest.
         script = messages @ stopper # rest \<and> list_all2 (answered L) messages answers
         \<and> ends_loop L stopper \<and> sent s' = sent s @ answers))
   \<and> (list_all2 (answered L) messages answers \<longrightarrow>
      length answers = length messages
      \<and> (\<forall>n<length messages. \<exists>data. recv (messages ! n) = Received data \<and> data \<noteq> []
            \<and> process_request L (clock (messages ! n)) data = Inr (answers ! n)
            \<and> send (messages ! n) = Sent))
   \<and> (ends_loop L stopper \<longleftrightarrow>
       (recv stopper = Received [] \<or> (\<exists>e. recv stopper = RecvRaises e)
        \<or> (\<exists>data e. recv stopper = Received data
              \<and> process_request L (clock stopper) data = Inl e)
        \<or> (\<exists>e. send stopper = SendRaises e)))"
proof (intro conjI impI)
  assume "list_all2 (answered L) messages answers \<and> ends_loop L stopper"
  then show "\<exists>escaped s'.
         handle_client L client_socket client_address (messages @ stopper # rest) s =
           Some (escaped, s')
         \<and> sent s' = sent s @ answers \<and> close_calls s' = close_calls s + 1"
    using handle_client_answers_then_ends by blast
next
  assume "handle_client L client_socket client_address script s = Some (escaped, s')"
  from handle_client_keeps_sent [OF this] obtain raised s1 where
    "client_loop L client_address script s = Some (raised, s1)" "sent s' = sent s1"
    by auto
  with client_loop_decomposes [of L client_address script s raised s1]
  show "\<exists>messages answers stopper rest.
         script = messages @ stopper # rest \<and> list_all2 (answered L) messages answers
         \<and> ends_loop L stopper \<and> sent s' = sent s @ answers"
    by simp
next
  assume a: "list_all2 (answered L) messages answers"
  from answered_each [OF a] show "length answers = length messages" by simp
  from answered_each [OF a]
  show "\<forall>n<length messages. \<exists>data. recv (messages ! n) = Received data \<and> data \<noteq> []
            \<and> process_request L (clock (messages ! n)) data = Inr (answers ! n)
            \<and> send (messages ! n) = Sent"
    by simp
next
  show "ends_loop L stopper \<longleftrightarrow>
       (recv stopper = Received [] \<or> (\<exists>e. recv stopper = RecvRaises e)
        \<or> (\<exists>data e. recv stopper = Received data
              \<and> process_request L (clock stopper) data = Inl e)
        \<or> (\<exists>e. send stopper = SendRaises e))"
    by (rule ends_loop_cases)
qed

theorem responses_follow_requests_in_order_witness:
  \<open>list_all2 (answered sample_lib)
     [\<lparr>recv = Received ''hello'', clock = Finite 5, send = Sent\<rparr>,
      \<lparr>recv = Received ''{"type": "bogus"}'', clock = Finite 6, send = Sent\<rparr>]
     [json_dumps sample_lib (JObj
        [(''type'', JStr ''echo''), (''response'', JStr ''Echo: hello''),
         (''timestamp'', JFloat (Finite 5))]),
      json_dumps sample_lib (JObj [(''error'', JStr ''Unknown request type'')])]
   \<and> ends_loop sample_lib \<lparr>recv = Received ''[]'', clock = Finite 7, send = Sent\<rparr>
   \<and> handle_client sample_lib 3 ''peer''
        [\<lparr>recv = Received ''hello'', clock = Finite 5, send = Sent\<rparr>,
         \<lparr>recv = Received ''{"type": "bogus"}'', clock = Finite 6, send = Sent\<rparr>,
         \<lparr>recv = Received ''[]'', clock = Finite 7, send = Sent\<rparr>,
         \<lparr>recv = Received ''hello'', clock = Finite 8, send = Sent\<rparr>]
        \<lparr>clients = [3], sent = [], close_calls = 0, printed = []\<rparr> =
       Some (None,
         \<lparr>clients = [],
          sent = [json_dumps sample_lib (JObj
                    [(''type'', JStr ''echo''), (''response'', JStr ''Echo: hello''),
                     (''timestamp'', JFloat (Finite 5))]),
                  json_dumps sample_lib (JObj [(''error'', JStr ''Unknown request type'')])],
          close_calls = 1,
          printed = [LogReceived ''peer'' ''hello'', LogReceived ''peer'' ''{"type": "bogus"}'',
                     LogReceived ''peer'' ''[]'', LogError ''peer'' AttributeError]\<rparr>)
   \<and> (\<exists>escaped s'.
        handle_client sample_lib 3 ''peer''
          ([\<lparr>recv = Received ''hello'', clock = Finite 5, send = Sent\<rparr>,
            \<lparr>recv = Received ''{"type": "bogus"}'', clock = Finite 6, send = Sent\<rparr>]
           @ \<lparr>recv = Received ''[]'', clock = Finite 7, send = Sent\<rparr>
           # [\<lparr>recv = Received ''hello'', clock = Finite 8, send = Sent\<rparr>])
          \<lparr>clients = [3], sent = [], close_calls = 0, printed = []\<rparr> = Some (escaped, s')
        \<and> sent s' =
            sent \<lparr>clients = [3], sent = [], close_calls = 0, printed = []\<rparr> @
            [json_dumps sample_lib (JObj
               [(''type'', JStr ''echo''), (''response'', JStr ''Echo: hello''),
                (''timestamp'', JFloat (Finite 5))]),
             json_dumps sample_lib (JObj [(''error'', JStr ''Unknown request type'')])]
        \<and> close_calls s' =
            close_calls \<lparr>clients = [3], sent = [], close_calls = 0, printed = []\<rparr> + 1)
   \<and> (\<exists>messages answers stopper rest.
        [\<lparr>recv = Received ''hello'', clock = Finite 5, send = Sent\<rparr>,
         \<lparr>recv = Received ''{"type": "bogus"}'', clock = Finite 6, send = Sent\<rparr>,
         \<lparr>recv = Received ''[]'', clock = Finite 7, send = Sent\<rparr>,
         \<lparr>recv = Received ''hello'', clock = Finite 8, send = Sent\<rparr>] =
          messages @ stopper # rest
        \<and> list_all2 (answered sample_lib) messages answers
        \<and> ends_loop sample_lib stopper
        \<and> [json_dumps sample_lib (JObj
               [(''type'', JStr ''echo''), (''response'', JStr ''Echo: hello''),
                (''timestamp'', JFloat (Finite 5))]),
             json_dumps sample_lib (JObj [(''error'', JStr ''Unknown request type'')])] =
            sent \<lparr>clients = [3], sent = [], close_calls = 0, printed = []\<rparr> @ answers)
   \<and> (\<exists>data. recv \<lparr>recv = Received ''{"type": "bogus"}'', clock = Finite 6, send = Sent\<rparr> =
          Received data
        \<and> data \<noteq> []
        \<and> process_request sample_lib (Finite 6) data =
            Inr (json_dumps sample_lib (JObj [(''error'', JStr ''Unknown request type'')])))
   \<and> process_request sample_lib (Finite 7) ''[]'' = Inl AttributeError\<close>
proof -
  have p1: "process_request sample_lib (Finite 5) ''hello'' =
      Inr (json_dumps sample_lib (JObj
        [(''type'', JStr ''echo''), (''response'', JStr ''Echo: hello''),
         (''timestamp'', JFloat (Finite 5))]))"
    by (simp add: process_request_def sample_lib_def sample_loads_def sample_loads_short)
  have p2: \<open>process_request sample_lib (Finite 6) ''{"type": "bogus"}'' =
      Inr (json_dumps sample_lib (JObj [(''error'', JStr ''Unknown request type'')]))\<close>
    by (simp add: process_request_def sample_lib_def sample_loads_def dict_get_def)
  have p3: "process_request sample_lib (Finite 7) ''[]'' = Inl AttributeError"
    by (simp add: process_request_def sample_lib_def sample_loads_def)
  have a: \<open>list_all2 (answered sample_lib)
     [\<lparr>recv = Received ''hello'', clock = Finite 5, send = Sent\<rparr>,
      \<lparr>recv = Received ''{"type": "bogus"}'', clock = Finite 6, send = Sent\<rparr>]
     [json_dumps sample_lib (JObj
        [(''type'', JStr ''echo''), (''response'', JStr ''Echo: hello''),
         (''timestamp'', JFloat (Finite 5))]),
      json_dumps sample_lib (JObj [(''error'', JStr ''Unknown request type'')])]\<close>
    using p1 p2 by (simp add: answered_def)
  have e: "ends_loop sample_lib \<lparr>recv = Received ''[]'', clock = Finite 7, send = Sent\<rparr>"
    using p3 by (simp add: ends_loop_def)
  have run: \<open>handle_client sample_lib 3 ''peer''
        [\<lparr>recv = Received ''hello'', clock = Finite 5, send = Sent\<rparr>,
         \<lparr>recv = Received ''{"type": "bogus"}'', clock = Finite 6, send = Sent\<rparr>,
         \<lparr>recv = Received ''[]'', clock = Finite 7, send = Sent\<rparr>,
         \<lparr>recv = Received ''hello'', clock = Finite 8, send = Sent\<rparr>]
        \<lparr>clients = [3], sent = [], close_calls = 0, printed = []\<rparr> =
       Some (None,
         \<lparr>clients = [],
          sent = [json_dumps sample_lib (JObj
                    [(''type'', JStr ''echo''), (''response'', JStr ''Echo: hello''),
                     (''timestamp'', JFloat (Finite 5))]),
                  json_dumps sample_lib (JObj [(''error'', JStr ''Unknown request type'')])],
          close_calls = 1,
          printed = [LogReceived ''peer'' ''hello'', LogReceived ''peer'' ''{"type": "bogus"}'',
                     LogReceived ''peer'' ''[]'', LogError ''peer'' AttributeError]\<rparr>)\<close>
    using p1 p2 p3
    by (simp add: handle_client_def except_clauses_def finally_clause_def is_Exception_def)
  note t = responses_follow_requests_in_order
    [where L = sample_lib and client_socket = 3 and client_address = "''peer''"
       and s = "\<lparr>clients = [3], sent = [], close_calls = 0, printed = []\<rparr>"
       and messages = \<open>[\<lparr>recv = Received ''hello'', clock = Finite 5, send = Sent\<rparr>,
          \<lparr>recv = Received ''{"type": "bogus"}'', clock = Finite 6, send = Sent\<rparr>]\<close>
       and answers = "[json_dumps sample_lib (JObj
             [(''type'', JStr ''echo''), (''response'', JStr ''Echo: hello''),
              (''timestamp'', JFloat (Finite 5))]),
           json_dumps sample_lib (JObj [(''error'', JStr ''Unknown request type'')])]"
       and stopper = "\<lparr>recv = Received ''[]'', clock = Finite 7, send = Sent\<rparr>"
       and rest = "[\<lparr>recv = Received ''hello'', clock = Finite 8, send = Sent\<rparr>]"
       and script = \<open>[\<lparr>recv = Received ''hello'', clock = Finite 5, send = Sent\<rparr>,
         \<lparr>recv = Received ''{"type": "bogus"}'', clock = Finite 6, send = Sent\<rparr>,
         \<lparr>recv = Received ''[]'', clock = Finite 7, send = Sent\<rparr>,
         \<lparr>recv = Received ''hello'', clock = Finite 8, send = Sent\<rparr>]\<close>
       and escaped = None
       and s' = \<open>\<lparr>clients = [],
          sent = [json_dumps sample_lib (JObj
                    [(''type'', JStr ''echo''), (''response'', JStr ''Echo: hello''),
                     (''timestamp'', JFloat (Finite 5))]),
                  json_dumps sample_lib (JObj [(''error'', JStr ''Unknown request type'')])],
          close_calls = 1,
          printed = [LogReceived ''peer'' ''hello'', LogReceived ''peer'' ''{"type": "bogus"}'',
                     LogReceived ''peer'' ''[]'', LogError ''peer'' AttributeError]\<rparr>\<close>]
  from t a e have 1: \<open>\<exists>escaped s'.
        handle_client sample_lib 3 ''peer''
          ([\<lparr>recv = Received ''hello'', clock = Finite 5, send = Sent\<rparr>,
            \<lparr>recv = Received ''{"type": "bogus"}'', clock = Finite 6, send = Sent\<rparr>]
           @ \<lparr>recv = Received ''[]'', clock = Finite 7, send = Sent\<rparr>
           # [\<lparr>recv = Received ''hello'', clock = Finite 8, send = Sent\<rparr>])
          \<lparr>clients = [3], sent = [], close_calls = 0, printed = []\<rparr> = Some (escaped, s')
        \<and> sent s' =
            sent \<lparr>clients = [3], sent = [], close_calls = 0, printed = []\<rparr> @
            [json_dumps sample_lib (JObj
               [(''type'', JStr ''echo''), (''response'', JStr ''Echo: hello''),
                (''timestamp'', JFloat (Finite 5))]),
             json_dumps sample_lib (JObj [(''error'', JStr ''Unknown request type'')])]
        \<and> close_calls s' =
            close_calls \<lparr>clients = [3], sent = [], close_calls = 0, printed = []\<rparr> + 1\<close>
    by blast
  from t run have 2: \<open>\<exists>messages answers stopper rest.
        [\<lparr>recv = Received ''hello'', clock = Finite 5, send = Sent\<rparr>,
         \<lparr>recv = Received ''{"type": "bogus"}'', clock = Finite 6, send = Sent\<rparr>,
         \<lparr>recv = Received ''[]'', clock = Finite 7, send = Sent\<rparr>,
         \<lparr>recv = Received ''hello'', clock = Finite 8, send = Sent\<rparr>] =
          messages @ stopper # rest
        \<and> list_all2 (answered sample_lib) messages answers
        \<and> ends_loop sample_lib stopper
        \<and> sent \<lparr>clients = [],
          sent = [json_dumps sample_lib (JObj
                    [(''type'', JStr ''echo''), (''response'', JStr ''Echo: hello''),
                     (''timestamp'', JFloat (Finite 5))]),
                  json_dumps sample_lib (JObj [(''error'', JStr ''Unknown request type'')])],
          close_calls = 1,
          printed = [LogReceived ''peer'' ''hello'', LogReceived ''peer'' ''{"type": "bogus"}'',
                     LogReceived ''peer'' ''[]'', LogError ''peer'' AttributeError]\<rparr> =
            sent \<lparr>clients = [3], sent = [], close_calls = 0, printed = []\<rparr> @ answers\<close>
    by blast
  from t a have \<open>\<forall>n<length [\<lparr>recv = Received ''hello'', clock = Finite 5, send = Sent\<rparr>,
          \<lparr>recv = Received ''{"type": "bogus"}'', clock = Finite 6, send = Sent\<rparr>].
        \<exists>data. recv ([\<lparr>recv = Received ''hello'', clock = Finite 5, send = Sent\<rparr>,
          \<lparr>recv = Received ''{"type": "bogus"}'', clock = Finite 6, send = Sent\<rparr>] ! n) =
          Received data \<and> data \<noteq> []
        \<and> process_request sample_lib
            (clock ([\<lparr>recv = Received ''hello'', clock = Finite 5, send = Sent\<rparr>,
          \<lparr>recv = Received ''{"type": "bogus"}'', clock = Finite 6, send = Sent\<rparr>] ! n)) data =
            Inr ([json_dumps sample_lib (JObj
             [(''type'', JStr ''echo''), (''response'', JStr ''Echo: hello''),
              (''timestamp'', JFloat (Finite 5))]),
           json_dumps sample_lib (JObj [(''error'', JStr ''Unknown request type'')])] ! n)
        \<and> send ([\<lparr>recv = Received ''hello'', clock = Finite 5, send = Sent\<rparr>,
          \<lparr>recv = Received ''{"type": "bogus"}'', clock = Finite 6, send = Sent\<rparr>] ! n) = Sent\<close>
    by blast
  from this [rule_format, of 1]
  have 3: \<open>\<exists>data. recv \<lparr>recv = Received ''{"type": "bogus"}'', clock = Finite 6, send = Sent\<rparr> =
          Received data
        \<and> data \<noteq> []
        \<and> process_request sample_lib (Finite 6) data =
            Inr (json_dumps sample_lib (JObj [(''error'', JStr ''Unknown request type'')]))\<close>
    by simp
  from 2 have two: \<open>\<exists>messages answers stopper rest.
        [\<lparr>recv = Received ''hello'', clock = Finite 5, send = Sent\<rparr>,
         \<lparr>recv = Received ''{"type": "bogus"}'', clock = Finite 6, send = Sent\<rparr>,
         \<lparr>recv = Received ''[]'', clock = Finite 7, send = Sent\<rparr>,
         \<lparr>recv = Received ''hello'', clock = Finite 8, send = Sent\<rparr>] =
          messages @ stopper # rest
        \<and> list_all2 (answered sample_lib) messages answers
        \<and> ends_loop sample_lib stopper
        \<and> [json_dumps sample_lib (JObj
               [(''type'', JStr ''echo''), (''response'', JStr ''Echo: hello''),
                (''timestamp'', JFloat (Finite 5))]),
             json_dumps sample_lib (JObj [(''error'', JStr ''Unknown request type'')])] =
            sent \<lparr>clients = [3], sent = [], close_calls = 0, printed = []\<rparr> @ answers\<close>
    by simp
  from a e run 1 two 3 p3 show ?thesis by blast
qed

text \<open>
  C8, as stated, fails: of the two messages \<open>[]\<close> and \<open>{"type": "bogus"}\<close> the first
  makes the dispatcher raise; the handler closes the connection and neither message gets a
  response, although the dispatcher has an output for the second.
\<close>

theorem request_without_response_counterexample:
  \<open>handle_client sample_lib 3 ''peer''
     [\<lparr>recv = Received ''[]'', clock = Finite 5, send = Sent\<rparr>,
      \<lparr>recv = Received ''{"type": "bogus"}'', clock = Finite 6, send = Sent\<rparr>,
      \<lparr>recv = Received '''', clock = Finite 7, send = Sent\<rparr>]
     \<lparr>clients = [3], sent = [], close_calls = 0, printed = []\<rparr> =
    Some (None,
      \<lparr>clients = [], sent = [], close_calls = 1,
       printed = [LogReceived ''peer'' ''[]'', LogError ''peer'' AttributeError]\<rparr>)
   \<and> process_request sample_lib (Finite 5) ''[]'' = Inl AttributeError
   \<and> process_request sample_lib (Finite 6) ''{"type": "bogus"}'' =
      Inr (json_dumps sample_lib (JObj [(''error'', JStr ''Unknown request type'')]))\<close>
proof -
  have p1: "process_request sample_lib (Finite 5) ''[]'' = Inl AttributeError"
    by (simp add: process_request_def sample_lib_def sample_loads_def)
  have p2: \<open>process_request sample_lib (Finite 6) ''{"type": "bogus"}'' =
      Inr (json_dumps sample_lib (JObj [(''error'', JStr ''Unknown request type'')]))\<close>
    by (simp add: process_request_def sample_lib_def sample_loads_def dict_get_def)
  show ?thesis
    using p1 p2
    by (simp add: handle_client_def except_clauses_def finally_clause_def is_Exception_def)
qed

end
